theory Spec2Isabelle
  imports Main "HOL-Library.Multiset"
begin

section \<open>Values shared by the Go packages\<close>

text \<open>
  A Go \<open>error\<close> is an interface value; \<open>nil\<close> is \<open>None\<close> of \<open>error option\<close>. An
  error is either a plain one or a \<open>trace.Error\<close>, which carries the error it was made
  from.
\<close>

datatype error = Err string | TraceError error

text \<open>
  \<open>trace.Wrap\<close> of the library, which this code applies to non-nil errors only: an
  error that is a \<open>trace.Error\<close> already is returned as it is, any other error is put
  into a new \<open>trace.Error\<close>.
\<close>

definition Wrap :: "error \<Rightarrow> error" where
  "Wrap err = (case err of TraceError _ \<Rightarrow> err | Err _ \<Rightarrow> TraceError err)"

text \<open>
  \<open>time.Time\<close> and \<open>time.Duration\<close> are counted in nanoseconds as unbounded integers;
  the zero \<open>time.Time\<close> (the value of an unset field) is \<open>0\<close>.
\<close>

definition Second :: int where
  "Second = 1000000000"

definition backoffDuration :: int where
  "backoffDuration = Second * 10"

text \<open>
  Modelled from the spec: \<open>services.CertAuthType\<close> and its two constants are declared
  outside the files at hand. The authority kind is a discriminator with the two named
  values host and user; in Go it is a string type, so further values exist.
\<close>

datatype CertAuthType = CertAuthType string

definition HostCA :: CertAuthType where
  "HostCA = CertAuthType ''host''"

definition UserCA :: CertAuthType where
  "UserCA = CertAuthType ''user''"

text \<open>
  Of \<open>services.Namespace\<close> the code reads \<open>ns.Metadata.Name\<close> only. Servers, users and
  certificate authorities are opaque to the caching client: type variables
  \<open>'srv\<close>, \<open>'usr\<close>, \<open>'ca\<close>. A slice is a list, the nil slice the empty list.
\<close>

record Namespace =
  Metadata_Name :: string

section \<open>The upstream access point and the clock\<close>

text \<open>
  \<open>auth.AccessPoint\<close> is an interface to a remote service. Its state is a value of an
  arbitrary type \<open>'u\<close>; every method maps that state to Go's pair (value, err) and the
  next state. \<open>apElapsed\<close> gives the nanoseconds the call that led to a state took, so
  that the clock read by \<open>time.Now()\<close> never runs backwards.
\<close>

record ('u, 'srv, 'usr, 'ca) AccessPoint =
  apGetDomainName :: "'u \<Rightarrow> (string \<times> error option) \<times> 'u"
  apGetNamespaces :: "'u \<Rightarrow> (Namespace list \<times> error option) \<times> 'u"
  apGetNodes :: "string \<Rightarrow> 'u \<Rightarrow> ('srv list \<times> error option) \<times> 'u"
  apGetProxies :: "'u \<Rightarrow> ('srv list \<times> error option) \<times> 'u"
  apGetUsers :: "'u \<Rightarrow> ('usr list \<times> error option) \<times> 'u"
  apGetCertAuthorities :: "CertAuthType \<Rightarrow> bool \<Rightarrow> 'u \<Rightarrow> ('ca list \<times> error option) \<times> 'u"
  apUpsertNode :: "'srv \<Rightarrow> int \<Rightarrow> 'u \<Rightarrow> (unit \<times> error option) \<times> 'u"
  apUpsertProxy :: "'srv \<Rightarrow> int \<Rightarrow> 'u \<Rightarrow> (unit \<times> error option) \<times> 'u"
  apElapsed :: "'u \<Rightarrow> nat"

text \<open>
  The calls made on the access point are recorded, each with the error it returned, in
  a log that the program itself never reads: it is what "an upstream call was made"
  refers to.
\<close>

datatype apCall =
    CallGetDomainName
  | CallGetNamespaces
  | CallGetNodes string
  | CallGetProxies
  | CallGetUsers
  | CallGetCertAuthorities CertAuthType bool
  | CallUpsertNode
  | CallUpsertProxy

record 'u world =
  clock :: int
  remote :: 'u
  apLog :: "(apCall \<times> error option) list"

definition invoke ::
  "('u, 'srv, 'usr, 'ca) AccessPoint \<Rightarrow> apCall \<Rightarrow> ('u \<Rightarrow> ('v \<times> error option) \<times> 'u)
     \<Rightarrow> 'u world \<Rightarrow> ('v \<times> error option) \<times> 'u world" where
  "invoke a c op w =
     (case op (remote w) of
        (r, u') \<Rightarrow>
          (r, \<lparr>clock = clock w + int (apElapsed a u'), remote = u',
               apLog = apLog w @ [(c, snd r)]\<rparr>))"

section \<open>The caching client (package state)\<close>

text \<open>
  The struct \<open>CachingAuthClient\<close>. The embedded mutex is left out: the model is of one
  goroutine. \<open>nodes\<close> is always an allocated map (the only constructor makes it).
\<close>

record ('u, 'srv, 'usr, 'ca) CachingAuthClient =
  ap :: "('u, 'srv, 'usr, 'ca) AccessPoint"
  lastErrorTime :: int
  domainName :: string
  namespaces :: "Namespace list"
  nodes :: "string \<rightharpoonup> 'srv list"
  proxies :: "'srv list"
  users :: "'usr list"
  userCAs :: "'ca list"
  hostCAs :: "'ca list"

type_synonym ('u, 'srv, 'usr, 'ca) state =
  "('u, 'srv, 'usr, 'ca) CachingAuthClient \<times> 'u world"

subsection \<open>The backoff helper\<close>

definition tooSoon :: "('u, 'srv, 'usr, 'ca) CachingAuthClient \<Rightarrow> 'u world \<Rightarrow> bool" where
  "tooSoon cs w \<longleftrightarrow> lastErrorTime cs + backoffDuration > clock w"

text \<open>
  \<open>try\<close> of the source (the name is taken in Isabelle). The function \<open>f\<close> may assign
  to variables of the function that encloses it; they are the component \<open>'l\<close>. The warning that is
  logged on suppression is not modelled. The second \<open>time.Now()\<close> reads the clock after
  \<open>f\<close> has returned.
\<close>

definition try' ::
  "('l \<Rightarrow> ('u, 'srv, 'usr, 'ca) state \<Rightarrow> error option \<times> 'l \<times> ('u, 'srv, 'usr, 'ca) state)
     \<Rightarrow> 'l \<Rightarrow> ('u, 'srv, 'usr, 'ca) state \<Rightarrow> 'l \<times> ('u, 'srv, 'usr, 'ca) state" where
  "try' f l s =
     (if tooSoon (fst s) (snd s) then (l, s)
      else (case f l s of
              (err, l', cs', w') \<Rightarrow>
                if err \<noteq> None then (l', cs'\<lparr>lastErrorTime := clock w'\<rparr>, w')
                else (l', cs', w')))"

subsection \<open>Construction\<close>

fun loadNodes ::
  "('u, 'srv, 'usr, 'ca) AccessPoint \<Rightarrow> Namespace list \<Rightarrow> (string \<rightharpoonup> 'srv list)
     \<Rightarrow> 'u world \<Rightarrow> (error + (string \<rightharpoonup> 'srv list)) \<times> 'u world" where
  "loadNodes a [] nodes' w = (Inr nodes', w)"
| "loadNodes a (ns # rest) nodes' w =
     (case invoke a (CallGetNodes (Metadata_Name ns)) (apGetNodes a (Metadata_Name ns)) w of
        ((nsNodes, err), w') \<Rightarrow>
          (case err of
             Some e \<Rightarrow> (Inl (Wrap e), w')
           | None \<Rightarrow> loadNodes a rest (nodes'(Metadata_Name ns \<mapsto> nsNodes)) w'))"

definition NewCachingAuthClient ::
  "('u, 'srv, 'usr, 'ca) AccessPoint \<Rightarrow> 'u world
     \<Rightarrow> (error + ('u, 'srv, 'usr, 'ca) CachingAuthClient) \<times> 'u world" where
  "NewCachingAuthClient a w0 =
     (case invoke a CallGetDomainName (apGetDomainName a) w0 of
        ((domainName', err), w1) \<Rightarrow>
     (case err of Some e \<Rightarrow> (Inl (Wrap e), w1) | None \<Rightarrow>
     (case invoke a CallGetNamespaces (apGetNamespaces a) w1 of
        ((namespaces', err), w2) \<Rightarrow>
     (case err of Some e \<Rightarrow> (Inl (Wrap e), w2) | None \<Rightarrow>
     (case loadNodes a namespaces' Map.empty w2 of
        (Inl e, w3) \<Rightarrow> (Inl e, w3)
      | (Inr nodes', w3) \<Rightarrow>
     (case invoke a CallGetProxies (apGetProxies a) w3 of
        ((proxies', err), w4) \<Rightarrow>
     (case err of Some e \<Rightarrow> (Inl (Wrap e), w4) | None \<Rightarrow>
     (case invoke a CallGetUsers (apGetUsers a) w4 of
        ((users', err), w5) \<Rightarrow>
     (case err of Some e \<Rightarrow> (Inl (Wrap e), w5) | None \<Rightarrow>
     (case invoke a (CallGetCertAuthorities UserCA False)
             (apGetCertAuthorities a UserCA False) w5 of
        ((userCAs', err), w6) \<Rightarrow>
     (case err of Some e \<Rightarrow> (Inl (Wrap e), w6) | None \<Rightarrow>
     (case invoke a (CallGetCertAuthorities HostCA False)
             (apGetCertAuthorities a HostCA False) w6 of
        ((hostCAs', err), w7) \<Rightarrow>
     (case err of Some e \<Rightarrow> (Inl (Wrap e), w7) | None \<Rightarrow>
       (Inr \<lparr>ap = a, lastErrorTime = 0, domainName = domainName', namespaces = [],
             nodes = nodes', proxies = proxies', users = users',
             userCAs = userCAs', hostCAs = hostCAs'\<rparr>, w7))))))))))))))"

subsection \<open>Read methods\<close>

text \<open>
  Every read method hands a function literal to \<open>try\<close>. The literal is given the
  name Go gives it (\<open>GetDomainName.func1\<close>, ...); its first argument holds the
  variables of the enclosing function that it may assign to.
\<close>

definition GetDomainName_func1 ::
  "unit \<Rightarrow> ('u, 'srv, 'usr, 'ca) state \<Rightarrow> error option \<times> unit \<times> ('u, 'srv, 'usr, 'ca) state" where
  "GetDomainName_func1 l s =
     (case s of (cs, w) \<Rightarrow>
        (case invoke (ap cs) CallGetDomainName (apGetDomainName (ap cs)) w of
           ((dn, err), w') \<Rightarrow>
             (err, l, (if err = None then cs\<lparr>domainName := dn\<rparr> else cs), w')))"

definition GetDomainName ::
  "('u, 'srv, 'usr, 'ca) state \<Rightarrow> (string \<times> error option) \<times> ('u, 'srv, 'usr, 'ca) state" where
  "GetDomainName s =
     (case try' GetDomainName_func1 () s of
        (_, cs', w') \<Rightarrow> ((domainName cs', None), cs', w'))"

definition GetNamespaces_func1 ::
  "unit \<Rightarrow> ('u, 'srv, 'usr, 'ca) state \<Rightarrow> error option \<times> unit \<times> ('u, 'srv, 'usr, 'ca) state" where
  "GetNamespaces_func1 l s =
     (case s of (cs, w) \<Rightarrow>
        (case invoke (ap cs) CallGetNamespaces (apGetNamespaces (ap cs)) w of
           ((namespaces', err), w') \<Rightarrow>
             (err, l, (if err = None then cs\<lparr>namespaces := namespaces'\<rparr> else cs), w')))"

definition GetNamespaces ::
  "('u, 'srv, 'usr, 'ca) state
     \<Rightarrow> (Namespace list \<times> error option) \<times> ('u, 'srv, 'usr, 'ca) state" where
  "GetNamespaces s =
     (case try' GetNamespaces_func1 () s of
        (_, cs', w') \<Rightarrow> ((namespaces cs', None), cs', w'))"

text \<open>
  \<open>GetNodes\<close> declares \<open>nsNodes\<close> and \<open>err\<close> (both nil), lets the function literal
  assign to them, and returns \<open>nsNodes\<close>.
\<close>

definition GetNodes_func1 ::
  "string \<Rightarrow> 'srv list \<times> error option \<Rightarrow> ('u, 'srv, 'usr, 'ca) state
     \<Rightarrow> error option \<times> ('srv list \<times> error option) \<times> ('u, 'srv, 'usr, 'ca) state" where
  "GetNodes_func1 namespace l s =
     (case s of (cs, w) \<Rightarrow>
        (case invoke (ap cs) (CallGetNodes namespace) (apGetNodes (ap cs) namespace) w of
           ((nsNodes, err), w') \<Rightarrow>
             (err, (nsNodes, err),
              (if err = None then cs\<lparr>nodes := (nodes cs)(namespace \<mapsto> nsNodes)\<rparr> else cs),
              w')))"

definition GetNodes ::
  "string \<Rightarrow> ('u, 'srv, 'usr, 'ca) state
     \<Rightarrow> ('srv list \<times> error option) \<times> ('u, 'srv, 'usr, 'ca) state" where
  "GetNodes namespace s =
     (case try' (GetNodes_func1 namespace) ([], None) s of
        ((nsNodes, err), cs', w') \<Rightarrow> ((nsNodes, None), cs', w'))"

definition GetProxies_func1 ::
  "unit \<Rightarrow> ('u, 'srv, 'usr, 'ca) state \<Rightarrow> error option \<times> unit \<times> ('u, 'srv, 'usr, 'ca) state" where
  "GetProxies_func1 l s =
     (case s of (cs, w) \<Rightarrow>
        (case invoke (ap cs) CallGetProxies (apGetProxies (ap cs)) w of
           ((proxies', err), w') \<Rightarrow>
             (err, l, (if err = None then cs\<lparr>proxies := proxies'\<rparr> else cs), w')))"

definition GetProxies ::
  "('u, 'srv, 'usr, 'ca) state \<Rightarrow> ('srv list \<times> error option) \<times> ('u, 'srv, 'usr, 'ca) state" where
  "GetProxies s =
     (case try' GetProxies_func1 () s of
        (_, cs', w') \<Rightarrow> ((proxies cs', None), cs', w'))"

definition GetCertAuthorities_func1 ::
  "CertAuthType \<Rightarrow> bool \<Rightarrow> unit \<Rightarrow> ('u, 'srv, 'usr, 'ca) state
     \<Rightarrow> error option \<times> unit \<times> ('u, 'srv, 'usr, 'ca) state" where
  "GetCertAuthorities_func1 ct loadKeys l s =
     (case s of (cs, w) \<Rightarrow>
        (case invoke (ap cs) (CallGetCertAuthorities ct loadKeys)
                (apGetCertAuthorities (ap cs) ct loadKeys) w of
           ((retval, err), w') \<Rightarrow>
             (err, l,
              (if err = None
               then (if ct = UserCA then cs\<lparr>userCAs := retval\<rparr>
                     else cs\<lparr>hostCAs := retval\<rparr>)
               else cs), w')))"

definition GetCertAuthorities ::
  "CertAuthType \<Rightarrow> bool \<Rightarrow> ('u, 'srv, 'usr, 'ca) state
     \<Rightarrow> ('ca list \<times> error option) \<times> ('u, 'srv, 'usr, 'ca) state" where
  "GetCertAuthorities ct loadKeys s =
     (case try' (GetCertAuthorities_func1 ct loadKeys) () s of
        (_, cs', w') \<Rightarrow>
          if ct = UserCA then ((userCAs cs', None), cs', w')
          else ((hostCAs cs', None), cs', w'))"

definition GetUsers_func1 ::
  "unit \<Rightarrow> ('u, 'srv, 'usr, 'ca) state \<Rightarrow> error option \<times> unit \<times> ('u, 'srv, 'usr, 'ca) state" where
  "GetUsers_func1 l s =
     (case s of (cs, w) \<Rightarrow>
        (case invoke (ap cs) CallGetUsers (apGetUsers (ap cs)) w of
           ((users', err), w') \<Rightarrow>
             (err, l, (if err = None then cs\<lparr>users := users'\<rparr> else cs), w')))"

definition GetUsers ::
  "('u, 'srv, 'usr, 'ca) state \<Rightarrow> ('usr list \<times> error option) \<times> ('u, 'srv, 'usr, 'ca) state" where
  "GetUsers s =
     (case try' GetUsers_func1 () s of
        (_, cs', w') \<Rightarrow> ((users cs', None), cs', w'))"

subsection \<open>Mutations\<close>

definition UpsertNode ::
  "'srv \<Rightarrow> int \<Rightarrow> ('u, 'srv, 'usr, 'ca) state \<Rightarrow> error option \<times> ('u, 'srv, 'usr, 'ca) state" where
  "UpsertNode srv ttl s =
     (case s of (cs, w) \<Rightarrow>
        (case invoke (ap cs) CallUpsertNode (apUpsertNode (ap cs) srv ttl) w of
           ((_, err), w') \<Rightarrow> (err, cs, w')))"

definition UpsertProxy ::
  "'srv \<Rightarrow> int \<Rightarrow> ('u, 'srv, 'usr, 'ca) state \<Rightarrow> error option \<times> ('u, 'srv, 'usr, 'ca) state" where
  "UpsertProxy srv ttl s =
     (case s of (cs, w) \<Rightarrow>
        (case invoke (ap cs) CallUpsertProxy (apUpsertProxy (ap cs) srv ttl) w of
           ((_, err), w') \<Rightarrow> (err, cs, w')))"

subsection \<open>Reading the call log\<close>

text \<open>
  The calls logged between two worlds, and the two shapes such a stretch of the log
  takes below: every call succeeded, or every call succeeded up to a last one that
  returned the error \<open>e\<close>.
\<close>

definition newCalls :: "'u world \<Rightarrow> 'u world \<Rightarrow> (apCall \<times> error option) list" where
  "newCalls w w' = drop (length (apLog w)) (apLog w')"

definition okRun :: "'u world \<Rightarrow> 'u world \<Rightarrow> bool" where
  "okRun w w' \<longleftrightarrow> (\<exists>es. apLog w' = apLog w @ es \<and> (\<forall>x\<in>set es. snd x = None))"

definition failRun :: "'u world \<Rightarrow> 'u world \<Rightarrow> error \<Rightarrow> bool" where
  "failRun w w' e \<longleftrightarrow>
     (\<exists>pre c. apLog w' = apLog w @ pre @ [(c, Some e)] \<and> (\<forall>x\<in>set pre. snd x = None))"

subsection \<open>The initial loads, as the upstream answers them\<close>

text \<open>
  The loads that construction is to make, as the specification lists them:
  domain name, namespaces, the nodes of each namespace that the upstream listed,
  proxies, users, user CAs, host CAs. Each is asked of the upstream in the state that
  the load before it left, whether or not that one failed; \<open>initialLoads\<close> is the list of
  the errors they return. It is written from that list, not from the constructor, and
  the constructor is measured against it.
\<close>

fun nodesLoads ::
  "('u, 'srv, 'usr, 'ca) AccessPoint \<Rightarrow> Namespace list \<Rightarrow> 'u \<Rightarrow> error option list \<times> 'u" where
  "nodesLoads a [] u = ([], u)"
| "nodesLoads a (ns # rest) u =
     (case apGetNodes a (Metadata_Name ns) u of
        ((v, err), u') \<Rightarrow>
          (case nodesLoads a rest u' of (errs, u'') \<Rightarrow> (err # errs, u'')))"

definition initialLoads :: "('u, 'srv, 'usr, 'ca) AccessPoint \<Rightarrow> 'u \<Rightarrow> error option list" where
  "initialLoads a u0 =
     (case apGetDomainName a u0 of ((v1, domainErr), u1) \<Rightarrow>
      case apGetNamespaces a u1 of ((nss, namespacesErr), u2) \<Rightarrow>
      case nodesLoads a nss u2 of (nodesErrs, u3) \<Rightarrow>
      case apGetProxies a u3 of ((v4, proxiesErr), u4) \<Rightarrow>
      case apGetUsers a u4 of ((v5, usersErr), u5) \<Rightarrow>
      case apGetCertAuthorities a UserCA False u5 of ((v6, userCAsErr), u6) \<Rightarrow>
      case apGetCertAuthorities a HostCA False u6 of ((v7, hostCAsErr), u7) \<Rightarrow>
        [domainErr, namespacesErr] @ nodesErrs
          @ [proxiesErr, usersErr, userCAsErr, hostCAsErr])"

section \<open>The inventory formatter (package ansible)\<close>

text \<open>
  Modelled from the spec: the interface \<open>services.Server\<close> is declared outside the
  files at hand. A server record exposes an address and a mapping of label keys to
  values; \<open>GetAllLabels\<close> lists the entries of that mapping in the order in which Go's
  \<open>range\<close> happens to visit them, which the language leaves open.
\<close>

record Server =
  GetAddr :: string
  GetAllLabels :: "(string \<times> string) list"

text \<open>
  \<open>strings.Split\<close> for a separator of one byte: the pieces between the separators,
  always at least one piece.
\<close>

fun Split :: "string \<Rightarrow> char \<Rightarrow> string list" where
  "Split [] sep = [[]]"
| "Split (c # s) sep =
     (if c = sep then [] # Split s sep
      else (case Split s sep of
              [] \<Rightarrow> [[c]]
            | first # rest \<Rightarrow> (c # first) # rest))"

definition trimTrailingPort :: "string \<Rightarrow> string" where
  "trimTrailingPort nodeAddr = Split nodeAddr (CHR '':'') ! 0"

text \<open>
  The statement \<open>labelBuffer[groupName] = append(labelBuffer[groupName], IP)\<close>: a key
  that is absent reads as the nil slice.
\<close>

definition append_host :: "(string \<rightharpoonup> string list) \<Rightarrow> string \<Rightarrow> string \<Rightarrow> (string \<rightharpoonup> string list)" where
  "append_host labelBuffer groupName IP =
     labelBuffer(groupName \<mapsto> (case labelBuffer groupName of None \<Rightarrow> [] | Some hosts \<Rightarrow> hosts) @ [IP])"

text \<open>The inner loop of \<open>bufferLabels\<close>, over the labels of one node, and the outer one.\<close>

fun bufferLabels_labels ::
  "Server \<Rightarrow> (string \<times> string) list \<Rightarrow> (string \<rightharpoonup> string list) \<Rightarrow> (string \<rightharpoonup> string list)" where
  "bufferLabels_labels n [] labelBuffer = labelBuffer"
| "bufferLabels_labels n ((label, val) # rest) labelBuffer =
     bufferLabels_labels n rest
       (append_host labelBuffer (label @ ''-'' @ val) (trimTrailingPort (GetAddr n)))"

fun bufferLabels_nodes :: "Server list \<Rightarrow> (string \<rightharpoonup> string list) \<Rightarrow> (string \<rightharpoonup> string list)" where
  "bufferLabels_nodes [] labelBuffer = labelBuffer"
| "bufferLabels_nodes (n # rest) labelBuffer =
     bufferLabels_nodes rest (bufferLabels_labels n (GetAllLabels n) labelBuffer)"

definition bufferLabels :: "Server list \<Rightarrow> (string \<rightharpoonup> string list)" where
  "bufferLabels nodes' = bufferLabels_nodes nodes' Map.empty"

section \<open>A concrete upstream for evaluation\<close>

text \<open>
  A scripted access point on which the functions above are evaluated at concrete
  inputs. Its state is a list of outcomes still to come: each call takes the head,
  \<open>True\<close> answers with the value and no error, \<open>False\<close> with the zero value and an
  error; once the script is used up every call succeeds. Each call takes a millisecond.
\<close>

definition scripted :: "'v \<Rightarrow> 'v \<Rightarrow> bool list \<Rightarrow> ('v \<times> error option) \<times> bool list" where
  "scripted ok zero u =
     (case u of
        [] \<Rightarrow> ((ok, None), [])
      | b # rest \<Rightarrow> if b then ((ok, None), rest) else ((zero, Some (Err ''offline'')), rest))"

definition demoAP :: "(bool list, string, string, string) AccessPoint" where
  "demoAP =
     \<lparr>apGetDomainName = scripted ''example.com'' [],
      apGetNamespaces = scripted [\<lparr>Metadata_Name = ''default''\<rparr>] [],
      apGetNodes = (\<lambda>ns. scripted [''node1.'' @ ns, ''node2.'' @ ns] []),
      apGetProxies = scripted [''proxy1''] [],
      apGetUsers = scripted [''alice'', ''bob''] [],
      apGetCertAuthorities = (\<lambda>ct loadKeys. scripted [case ct of CertAuthType k \<Rightarrow> k @ ''-ca''] []),
      apUpsertNode = (\<lambda>srv ttl. scripted () ()),
      apUpsertProxy = (\<lambda>srv ttl. scripted () ()),
      apElapsed = (\<lambda>u. 1000000)\<rparr>"

text \<open>
  A client as construction against a healthy \<open>demoAP\<close> would leave it, but with every
  slot holding a value that differs from what \<open>demoAP\<close> answers, and a failure recorded
  at \<open>T\<close>.
\<close>

definition staleClient :: "int \<Rightarrow> (bool list, string, string, string) CachingAuthClient" where
  "staleClient T =
     \<lparr>ap = demoAP, lastErrorTime = T, domainName = ''old.example.com'',
      namespaces = [\<lparr>Metadata_Name = ''old''\<rparr>],
      nodes = [''default'' \<mapsto> [''oldnode'']],
      proxies = [''oldproxy''], users = [''olduser''],
      userCAs = [''old-user-ca''], hostCAs = [''old-host-ca'']\<rparr>"

definition worldAt :: "int \<Rightarrow> bool list \<Rightarrow> bool list world" where
  "worldAt t script = \<lparr>clock = t, remote = script, apLog = []\<rparr>"

section \<open>Basic facts\<close>

lemma fst_invoke: "fst (invoke a c op w) = fst (op (remote w))"
  by (simp add: invoke_def split: prod.splits)

lemma snd_invoke:
  "snd (invoke a c op w) =
     \<lparr>clock = clock w + int (apElapsed a (snd (op (remote w)))), remote = snd (op (remote w)),
      apLog = apLog w @ [(c, snd (fst (op (remote w))))]\<rparr>"
  by (simp add: invoke_def split: prod.splits)

lemma try'_suppressed: "tooSoon cs w \<Longrightarrow> try' f l (cs, w) = (l, cs, w)"
  by (simp add: try'_def)

lemma try'_attempt:
  "\<not> tooSoon cs w \<Longrightarrow> f l (cs, w) = (err, l', cs', w') \<Longrightarrow>
   try' f l (cs, w) = (l', (if err \<noteq> None then cs'\<lparr>lastErrorTime := clock w'\<rparr> else cs'), w')"
  by (simp add: try'_def)

text \<open>
  Each read method in closed form: what it returns and the state it leaves, by the
  three ways a call can go (suppressed, refreshed, failed).
\<close>

lemma GetDomainName_eq:
  "GetDomainName (cs, w) =
     (if tooSoon cs w then ((domainName cs, None), cs, w)
      else (let r = fst (apGetDomainName (ap cs) (remote w));
                w' = snd (invoke (ap cs) CallGetDomainName (apGetDomainName (ap cs)) w)
            in if snd r = None then ((fst r, None), cs\<lparr>domainName := fst r\<rparr>, w')
               else ((domainName cs, None), cs\<lparr>lastErrorTime := clock w'\<rparr>, w')))"
  by (auto simp add: GetDomainName_def GetDomainName_func1_def try'_def invoke_def Let_def split: prod.splits option.splits)

lemma GetNodes_eq:
  "GetNodes ns (cs, w) =
     (if tooSoon cs w then (([], None), cs, w)
      else (let r = fst (apGetNodes (ap cs) ns (remote w));
                w' = snd (invoke (ap cs) (CallGetNodes ns) (apGetNodes (ap cs) ns) w)
            in if snd r = None then ((fst r, None), cs\<lparr>nodes := (nodes cs)(ns \<mapsto> fst r)\<rparr>, w')
               else ((fst r, None), cs\<lparr>lastErrorTime := clock w'\<rparr>, w')))"
  by (auto simp add: GetNodes_def GetNodes_func1_def try'_def invoke_def Let_def split: prod.splits option.splits)

lemma GetCertAuthorities_eq:
  "GetCertAuthorities ct lk (cs, w) =
     (if tooSoon cs w then ((if ct = UserCA then userCAs cs else hostCAs cs, None), cs, w)
      else (let r = fst (apGetCertAuthorities (ap cs) ct lk (remote w));
                w' = snd (invoke (ap cs) (CallGetCertAuthorities ct lk) (apGetCertAuthorities (ap cs) ct lk) w)
            in if snd r = None then ((fst r, None), (if ct = UserCA then cs\<lparr>userCAs := fst r\<rparr> else cs\<lparr>hostCAs := fst r\<rparr>), w')
               else ((if ct = UserCA then userCAs cs else hostCAs cs, None), cs\<lparr>lastErrorTime := clock w'\<rparr>, w')))"
  by (auto simp add: GetCertAuthorities_def GetCertAuthorities_func1_def try'_def invoke_def Let_def split: prod.splits option.splits)

lemma GetNamespaces_eq:
  "GetNamespaces (cs, w) =
     (if tooSoon cs w then ((namespaces cs, None), cs, w)
      else (let r = fst (apGetNamespaces (ap cs) (remote w));
                w' = snd (invoke (ap cs) CallGetNamespaces (apGetNamespaces (ap cs)) w)
            in if snd r = None then ((fst r, None), cs\<lparr>namespaces := fst r\<rparr>, w')
               else ((namespaces cs, None), cs\<lparr>lastErrorTime := clock w'\<rparr>, w')))"
  by (auto simp add: GetNamespaces_def GetNamespaces_func1_def try'_def invoke_def Let_def split: prod.splits option.splits)

lemma GetProxies_eq:
  "GetProxies (cs, w) =
     (if tooSoon cs w then ((proxies cs, None), cs, w)
      else (let r = fst (apGetProxies (ap cs) (remote w));
                w' = snd (invoke (ap cs) CallGetProxies (apGetProxies (ap cs)) w)
            in if snd r = None then ((fst r, None), cs\<lparr>proxies := fst r\<rparr>, w')
               else ((proxies cs, None), cs\<lparr>lastErrorTime := clock w'\<rparr>, w')))"
  by (auto simp add: GetProxies_def GetProxies_func1_def try'_def invoke_def Let_def split: prod.splits option.splits)

lemma GetUsers_eq:
  "GetUsers (cs, w) =
     (if tooSoon cs w then ((users cs, None), cs, w)
      else (let r = fst (apGetUsers (ap cs) (remote w));
                w' = snd (invoke (ap cs) CallGetUsers (apGetUsers (ap cs)) w)
            in if snd r = None then ((fst r, None), cs\<lparr>users := fst r\<rparr>, w')
               else ((users cs, None), cs\<lparr>lastErrorTime := clock w'\<rparr>, w')))"
  by (auto simp add: GetUsers_def GetUsers_func1_def try'_def invoke_def Let_def split: prod.splits option.splits)

lemmas read_eqs = GetDomainName_eq GetNamespaces_eq GetNodes_eq GetProxies_eq GetUsers_eq
  GetCertAuthorities_eq

lemma tooSoon_iff: "tooSoon cs w \<longleftrightarrow> clock w < lastErrorTime cs + 10 * Second"
  by (simp add: tooSoon_def backoffDuration_def Second_def)

text \<open>Unfolding the concrete upstream.\<close>

lemmas demo_simps = demoAP_def scripted_def staleClient_def worldAt_def Second_def
  backoffDuration_def tooSoon_def

lemma func1_frame:
  "lastErrorTime (fst (snd (snd (GetDomainName_func1 l (cs, w))))) = lastErrorTime cs"
  "clock w \<le> clock (snd (snd (snd (GetDomainName_func1 l (cs, w)))))"
  "lastErrorTime (fst (snd (snd (GetNamespaces_func1 l (cs, w))))) = lastErrorTime cs"
  "clock w \<le> clock (snd (snd (snd (GetNamespaces_func1 l (cs, w)))))"
  "lastErrorTime (fst (snd (snd (GetNodes_func1 ns l2 (cs, w))))) = lastErrorTime cs"
  "clock w \<le> clock (snd (snd (snd (GetNodes_func1 ns l2 (cs, w)))))"
  "lastErrorTime (fst (snd (snd (GetProxies_func1 l (cs, w))))) = lastErrorTime cs"
  "clock w \<le> clock (snd (snd (snd (GetProxies_func1 l (cs, w)))))"
  "lastErrorTime (fst (snd (snd (GetUsers_func1 l (cs, w))))) = lastErrorTime cs"
  "clock w \<le> clock (snd (snd (snd (GetUsers_func1 l (cs, w)))))"
  "lastErrorTime (fst (snd (snd (GetCertAuthorities_func1 ct lk l (cs, w))))) = lastErrorTime cs"
  "clock w \<le> clock (snd (snd (snd (GetCertAuthorities_func1 ct lk l (cs, w)))))"
  by (simp_all add: GetDomainName_func1_def GetNamespaces_func1_def GetNodes_func1_def
        GetProxies_func1_def GetUsers_func1_def GetCertAuthorities_func1_def invoke_def
        split: prod.splits)

text \<open>
  What a read does when no value arrives: the error is nil and the slot stays as it
  was; five of the six methods answer with the slot.
\<close>

lemma read_fallback:
  "(tooSoon cs w \<or> snd (fst (apGetDomainName (ap cs) (remote w))) \<noteq> None \<longrightarrow>
      fst (GetDomainName (cs, w)) = (domainName cs, None) \<and>
      domainName (fst (snd (GetDomainName (cs, w)))) = domainName cs) \<and>
   (tooSoon cs w \<or> snd (fst (apGetNamespaces (ap cs) (remote w))) \<noteq> None \<longrightarrow>
      fst (GetNamespaces (cs, w)) = (namespaces cs, None) \<and>
      namespaces (fst (snd (GetNamespaces (cs, w)))) = namespaces cs) \<and>
   (tooSoon cs w \<or> snd (fst (apGetProxies (ap cs) (remote w))) \<noteq> None \<longrightarrow>
      fst (GetProxies (cs, w)) = (proxies cs, None) \<and>
      proxies (fst (snd (GetProxies (cs, w)))) = proxies cs) \<and>
   (tooSoon cs w \<or> snd (fst (apGetUsers (ap cs) (remote w))) \<noteq> None \<longrightarrow>
      fst (GetUsers (cs, w)) = (users cs, None) \<and>
      users (fst (snd (GetUsers (cs, w)))) = users cs) \<and>
   (tooSoon cs w \<or> snd (fst (apGetCertAuthorities (ap cs) ct lk (remote w))) \<noteq> None \<longrightarrow>
      fst (GetCertAuthorities ct lk (cs, w)) =
        (if ct = UserCA then userCAs cs else hostCAs cs, None) \<and>
      userCAs (fst (snd (GetCertAuthorities ct lk (cs, w)))) = userCAs cs \<and>
      hostCAs (fst (snd (GetCertAuthorities ct lk (cs, w)))) = hostCAs cs) \<and>
   (tooSoon cs w \<or> snd (fst (apGetNodes (ap cs) ns (remote w))) \<noteq> None \<longrightarrow>
      snd (fst (GetNodes ns (cs, w))) = None \<and>
      nodes (fst (snd (GetNodes ns (cs, w)))) = nodes cs)"
  by (auto simp add: read_eqs Let_def)

subsection \<open>The call log during construction\<close>

lemma okRun_refl: "okRun w w"
  by (simp add: okRun_def)

lemma okRun_trans: "okRun w w1 \<Longrightarrow> okRun w1 w2 \<Longrightarrow> okRun w w2"
  by (auto simp add: okRun_def)

lemma okRun_failRun: "okRun w w1 \<Longrightarrow> failRun w1 w2 e \<Longrightarrow> failRun w w2 e"
proof -
  assume "okRun w w1" and "failRun w1 w2 e"
  then obtain es pre c where 1: "apLog w1 = apLog w @ es" "\<forall>x\<in>set es. snd x = None"
    and 2: "apLog w2 = apLog w1 @ pre @ [(c, Some e)]" "\<forall>x\<in>set pre. snd x = None"
    by (auto simp add: okRun_def failRun_def)
  then have "apLog w2 = apLog w @ (es @ pre) @ [(c, Some e)]" "\<forall>x\<in>set (es @ pre). snd x = None"
    by auto
  then show ?thesis unfolding failRun_def by blast
qed

lemma invoke_okRun: "invoke a c op w = ((v, None), w') \<Longrightarrow> okRun w w'"
  by (auto simp add: invoke_def okRun_def split: prod.splits)

lemma invoke_failRun: "invoke a c op w = ((v, Some e), w') \<Longrightarrow> failRun w w' e"
  by (auto simp add: invoke_def failRun_def split: prod.splits)

lemma loadNodes_okRun: "loadNodes a nss m w = (Inr m', w') \<Longrightarrow> okRun w w'"
proof (induction nss arbitrary: m w)
  case Nil
  then show ?case by (simp add: okRun_refl)
next
  case (Cons ns rest)
  then show ?case
    by (auto split: prod.splits option.splits intro: okRun_trans invoke_okRun)
qed

lemma loadNodes_failRun: "loadNodes a nss m w = (Inl x, w') \<Longrightarrow> \<exists>e. x = Wrap e \<and> failRun w w' e"
proof (induction nss arbitrary: m w)
  case Nil
  then show ?case by simp
next
  case (Cons ns rest)
  obtain v err w1 where i: "invoke a (CallGetNodes (Metadata_Name ns)) (apGetNodes a (Metadata_Name ns)) w = ((v, err), w1)"
    by (metis prod.exhaust)
  show ?case
  proof (cases err)
    case None
    with i Cons.prems have "loadNodes a rest (m(Metadata_Name ns \<mapsto> v)) w1 = (Inl x, w')" by simp
    from Cons.IH [OF this] obtain e where "x = Wrap e" "failRun w1 w' e" by blast
    moreover from i None have "okRun w w1" by (auto intro: invoke_okRun)
    ultimately show ?thesis by (blast intro: okRun_failRun)
  next
    case (Some e)
    with i Cons.prems have "x = Wrap e" "w' = w1" by simp_all
    moreover from i Some have "failRun w w1 e" by (auto intro: invoke_failRun)
    ultimately show ?thesis by blast
  qed
qed

lemma NewCachingAuthClient_okRun:
  "NewCachingAuthClient a w = (Inr c, w') \<Longrightarrow> okRun w w'"
  unfolding NewCachingAuthClient_def
  apply (clarsimp split: prod.splits option.splits sum.splits dest!: invoke_okRun loadNodes_okRun)
  apply (blast intro: okRun_trans)
  done

lemma NewCachingAuthClient_failRun:
  "NewCachingAuthClient a w = (Inl x, w') \<Longrightarrow> \<exists>e. x = Wrap e \<and> failRun w w' e"
  unfolding NewCachingAuthClient_def
  apply (clarsimp split: prod.splits option.splits sum.splits
           dest!: invoke_okRun loadNodes_okRun invoke_failRun loadNodes_failRun)
  apply (blast intro: okRun_trans okRun_failRun)+
  done

text \<open>
  A construction that succeeds has queried every category once, the nodes once for each
  namespace that the upstream listed.
\<close>

lemma loadNodes_log:
  "loadNodes a nss m w = (Inr m', w') \<Longrightarrow>
   apLog w' = apLog w @ map (\<lambda>ns. (CallGetNodes (Metadata_Name ns), None)) nss"
proof (induction nss arbitrary: m w)
  case Nil
  then show ?case by simp
next
  case (Cons ns rest)
  then show ?case
    by (auto simp add: snd_invoke fst_invoke split: prod.splits option.splits
             dest!: Cons.IH simp add: invoke_def)
qed

lemma NewCachingAuthClient_log:
  assumes "NewCachingAuthClient a w = (Inr c, w')"
  shows "apLog w' =
           apLog w @ [(CallGetDomainName, None), (CallGetNamespaces, None)]
             @ map (\<lambda>ns. (CallGetNodes (Metadata_Name ns), None))
                 (fst (fst (apGetNamespaces a (snd (apGetDomainName a (remote w))))))
             @ [(CallGetProxies, None), (CallGetUsers, None),
                (CallGetCertAuthorities UserCA False, None),
                (CallGetCertAuthorities HostCA False, None)]"
  using assms unfolding NewCachingAuthClient_def
  by (auto simp add: invoke_def split: prod.splits option.splits sum.splits dest!: loadNodes_log)

lemma NewCachingAuthClient_domainName:
  assumes "NewCachingAuthClient a w = (Inr c, w')"
  shows "domainName c = fst (fst (apGetDomainName a (remote w)))"
  using assms unfolding NewCachingAuthClient_def
  by (auto simp add: invoke_def split: prod.splits option.splits sum.splits)

lemma NewCachingAuthClient_namespaces_nil:
  "NewCachingAuthClient a w = (Inr c, w') \<Longrightarrow> namespaces c = []"
  by (auto simp add: NewCachingAuthClient_def split: prod.splits option.splits sum.splits)

text \<open>
  A call that the log shows to have failed during construction is the last one, and its
  error, passed through \<open>trace.Wrap\<close>, is what construction returns.
\<close>

lemma failed_call_is_returned:
  assumes "NewCachingAuthClient a w = (r, w')"
      and "(c, Some e) \<in> set (newCalls w w')"
  shows "r = Inl (Wrap e)"
proof (cases r)
  case (Inl x)
  with assms(1) obtain e0 where x: "x = Wrap e0" and f: "failRun w w' e0"
    using NewCachingAuthClient_failRun by blast
  from f obtain pre c0 where "apLog w' = apLog w @ pre @ [(c0, Some e0)]"
    "\<forall>x\<in>set pre. snd x = None" by (auto simp add: failRun_def)
  with assms(2) have "e = e0" by (auto simp add: newCalls_def)
  with x Inl show ?thesis by simp
next
  case (Inr cl)
  with assms(1) have "okRun w w'" using NewCachingAuthClient_okRun by blast
  with assms(2) show ?thesis by (fastforce simp add: okRun_def newCalls_def)
qed

subsection \<open>Construction against the upstream's answers\<close>

lemma remote_invoke: "invoke a c op w = ((v, err), w') \<Longrightarrow> op (remote w) = ((v, err), remote w')"
  by (auto simp add: invoke_def split: prod.splits)

lemma invoke_remote:
  "op (remote w) = ((v, err), u') \<Longrightarrow> \<exists>w'. invoke a c op w = ((v, err), w') \<and> remote w' = u'"
  by (simp add: invoke_def)

lemma loadNodes_Inr_loads:
  "loadNodes a nss m w = (Inr m', w') \<Longrightarrow>
   nodesLoads a nss (remote w) = (map (\<lambda>ns. None) nss, remote w')"
proof (induction nss arbitrary: m w)
  case Nil
  then show ?case by simp
next
  case (Cons ns rest)
  obtain v err w1 where i: "invoke a (CallGetNodes (Metadata_Name ns))
      (apGetNodes a (Metadata_Name ns)) w = ((v, err), w1)"
    by (metis prod.exhaust)
  with Cons.prems have e: "err = None"
    and r: "loadNodes a rest (m(Metadata_Name ns \<mapsto> v)) w1 = (Inr m', w')"
    by (auto split: option.splits)
  from remote_invoke [OF i] e Cons.IH [OF r] show ?case by simp
qed

lemma NewCachingAuthClient_Inr_loads:
  assumes "NewCachingAuthClient a w = (Inr c, w')"
  shows "initialLoads a (remote w) =
           [None, None]
             @ map (\<lambda>ns. None) (fst (fst (apGetNamespaces a (snd (apGetDomainName a (remote w))))))
             @ [None, None, None, None]"
  using assms unfolding NewCachingAuthClient_def initialLoads_def
  by (auto split: prod.splits option.splits sum.splits
           dest!: remote_invoke loadNodes_Inr_loads)

lemma loadNodes_all_loads_succeed:
  "nodesLoads a nss (remote w) = (errs, u) \<Longrightarrow> \<forall>x\<in>set errs. x = None \<Longrightarrow>
   \<exists>m' w'. loadNodes a nss m w = (Inr m', w') \<and> remote w' = u"
proof (induction nss arbitrary: m w errs)
  case Nil
  then show ?case by simp
next
  case (Cons ns rest)
  obtain v err w1 where i: "invoke a (CallGetNodes (Metadata_Name ns))
      (apGetNodes a (Metadata_Name ns)) w = ((v, err), w1)"
    by (metis prod.exhaust)
  note r = remote_invoke [OF i]
  obtain errs' u' where n: "nodesLoads a rest (remote w1) = (errs', u')"
    by (metis prod.exhaust)
  with r Cons.prems(1) have e: "errs = err # errs'" "u' = u" by auto
  with Cons.prems(2) have z: "err = None" "\<forall>x\<in>set errs'. x = None" by auto
  from n e have n': "nodesLoads a rest (remote w1) = (errs', u)" by simp
  from Cons.IH [OF n' z(2), of "m(Metadata_Name ns \<mapsto> v)"] obtain m' w'
    where "loadNodes a rest (m(Metadata_Name ns \<mapsto> v)) w1 = (Inr m', w')" "remote w' = u"
    by blast
  with i z(1) show ?case by simp
qed

text \<open>The converse: when no initial load fails, a client is built.\<close>

lemma construction_succeeds_when_all_loads_succeed:
  assumes "\<forall>x\<in>set (initialLoads a (remote w)). x = None"
  shows "\<exists>c. fst (NewCachingAuthClient a w) = Inr c"
proof -
  obtain v1 e1 u1 where o1: "apGetDomainName a (remote w) = ((v1, e1), u1)"
    by (metis prod.exhaust)
  obtain v2 e2 u2 where o2: "apGetNamespaces a u1 = ((v2, e2), u2)"
    by (metis prod.exhaust)
  obtain errs u3 where n: "nodesLoads a v2 u2 = (errs, u3)"
    by (metis prod.exhaust)
  obtain v4 e4 u4 where o4: "apGetProxies a u3 = ((v4, e4), u4)"
    by (metis prod.exhaust)
  obtain v5 e5 u5 where o5: "apGetUsers a u4 = ((v5, e5), u5)"
    by (metis prod.exhaust)
  obtain v6 e6 u6 where o6: "apGetCertAuthorities a UserCA False u5 = ((v6, e6), u6)"
    by (metis prod.exhaust)
  obtain v7 e7 u7 where o7: "apGetCertAuthorities a HostCA False u6 = ((v7, e7), u7)"
    by (metis prod.exhaust)
  have "initialLoads a (remote w) = [e1, e2] @ errs @ [e4, e5, e6, e7]"
    by (simp add: initialLoads_def o1 o2 n o4 o5 o6 o7)
  with assms have z: "e1 = None" "e2 = None" "\<forall>x\<in>set errs. x = None"
    "e4 = None" "e5 = None" "e6 = None" "e7 = None"
    by simp_all
  from invoke_remote [where op = "apGetDomainName a" and c = CallGetDomainName and a = a, OF o1]
  obtain w1
    where i1: "invoke a CallGetDomainName (apGetDomainName a) w = ((v1, e1), w1)"
      and r1: "remote w1 = u1" by blast
  from o2 r1 have "apGetNamespaces a (remote w1) = ((v2, e2), u2)" by simp
  from invoke_remote [where op = "apGetNamespaces a" and c = CallGetNamespaces and a = a, OF this]
  obtain w2
    where i2: "invoke a CallGetNamespaces (apGetNamespaces a) w1 = ((v2, e2), w2)"
      and r2: "remote w2 = u2" by blast
  from n r2 have "nodesLoads a v2 (remote w2) = (errs, u3)" by simp
  from loadNodes_all_loads_succeed [OF this z(3), of Map.empty] obtain m' w3
    where l: "loadNodes a v2 Map.empty w2 = (Inr m', w3)" and r3: "remote w3 = u3" by blast
  from o4 r3 have "apGetProxies a (remote w3) = ((v4, e4), u4)" by simp
  from invoke_remote [where op = "apGetProxies a" and c = CallGetProxies and a = a, OF this]
  obtain w4
    where i4: "invoke a CallGetProxies (apGetProxies a) w3 = ((v4, e4), w4)"
      and r4: "remote w4 = u4" by blast
  from o5 r4 have "apGetUsers a (remote w4) = ((v5, e5), u5)" by simp
  from invoke_remote [where op = "apGetUsers a" and c = CallGetUsers and a = a, OF this]
  obtain w5
    where i5: "invoke a CallGetUsers (apGetUsers a) w4 = ((v5, e5), w5)"
      and r5: "remote w5 = u5" by blast
  from o6 r5 have "apGetCertAuthorities a UserCA False (remote w5) = ((v6, e6), u6)" by simp
  from invoke_remote [where op = "apGetCertAuthorities a UserCA False" and c = "CallGetCertAuthorities UserCA False" and a = a, OF this]
  obtain w6
    where i6: "invoke a (CallGetCertAuthorities UserCA False)
        (apGetCertAuthorities a UserCA False) w5 = ((v6, e6), w6)"
      and r6: "remote w6 = u6" by blast
  from o7 r6 have "apGetCertAuthorities a HostCA False (remote w6) = ((v7, e7), u7)" by simp
  from invoke_remote [where op = "apGetCertAuthorities a HostCA False" and c = "CallGetCertAuthorities HostCA False" and a = a, OF this]
  obtain w7
    where i7: "invoke a (CallGetCertAuthorities HostCA False)
        (apGetCertAuthorities a HostCA False) w6 = ((v7, e7), w7)" by blast
  show ?thesis
    using i1 i2 l i4 i5 i6 i7 z by (simp add: NewCachingAuthClient_def)
qed

subsection \<open>Splitting addresses and grouping labels\<close>

lemma Split_nonempty: "Split s sep \<noteq> []"
  by (induction s) (auto split: list.splits)

lemma Split_hd: "Split s sep ! 0 = takeWhile (\<lambda>c. c \<noteq> sep) s"
  using Split_nonempty by (induction s) (auto split: list.splits)

lemma trimTrailingPort_strips:
  "CHR '':'' \<notin> set host \<Longrightarrow> trimTrailingPort (host @ CHR '':'' # port) = host"
  "CHR '':'' \<notin> set host \<Longrightarrow> trimTrailingPort host = host"
  by (auto simp add: trimTrailingPort_def Split_hd takeWhile_append)

lemma trim_suffix:
  "CHR '':'' \<notin> set host \<Longrightarrow> p = [] \<or> hd p = CHR '':'' \<Longrightarrow> trimTrailingPort (host @ p) = host"
  by (cases p) (auto simp add: trimTrailingPort_strips)

lemma append_host_commute:
  "append_host (append_host b g1 ip) g2 ip = append_host (append_host b g2 ip) g1 ip"
  by (auto simp add: append_host_def fun_eq_iff)

lemma bufferLabels_labels_fold:
  "bufferLabels_labels n ls b =
     fold (\<lambda>(label, val) b. append_host b (label @ ''-'' @ val) (trimTrailingPort (GetAddr n))) ls b"
  by (induction ls arbitrary: b) auto

text \<open>
  The order in which the labels of a node are visited does not matter: every visit
  appends the same address.
\<close>

lemma bufferLabels_labels_order:
  assumes "mset ls = mset ls'"
  shows "bufferLabels_labels n ls b = bufferLabels_labels n ls' b"
proof -
  let ?f = "\<lambda>(label, val) b. append_host b (label @ ''-'' @ val) (trimTrailingPort (GetAddr n))"
  have "fold ?f ls = fold ?f ls'"
    by (rule fold_multiset_equiv [OF _ assms]) (auto simp add: fun_eq_iff append_host_commute)
  then show ?thesis by (simp add: bufferLabels_labels_fold)
qed

section \<open>Reads of the caching client\<close>

text \<open>
  C1. Every read method returns a nil error, and when the gate suppresses the attempt
  or the upstream call fails, the value returned is the previously cached slot, which
  stays unchanged. \<open>GetNodes\<close> does not do this: it returns its local \<open>nsNodes\<close>. With
  \<open>[''oldnode'']\<close> cached for the namespace, a suppressed call returns the nil slice, and
  so does a call on which the upstream fails with a nil value; the slot is unchanged in
  both.
\<close>

theorem GetNodes_ignores_cached_nodes:
  "tooSoon (staleClient (100 * Second)) (worldAt (101 * Second) []) \<and>
   nodes (staleClient (100 * Second)) ''default'' = Some [''oldnode''] \<and>
   GetNodes ''default'' (staleClient (100 * Second), worldAt (101 * Second) []) =
     (([], None), staleClient (100 * Second), worldAt (101 * Second) []) \<and>
   \<not> tooSoon (staleClient (100 * Second)) (worldAt (110 * Second) [False]) \<and>
   apGetNodes demoAP ''default'' [False] = (([], Some (Err ''offline'')), []) \<and>
   fst (GetNodes ''default'' (staleClient (100 * Second), worldAt (110 * Second) [False])) =
     ([], None) \<and>
   nodes (fst (snd (GetNodes ''default'' (staleClient (100 * Second), worldAt (110 * Second) [False]))))
     ''default'' = Some [''oldnode'']"
  by (simp add: GetNodes_eq Let_def demo_simps)

text \<open>
  C5. For every read method, when the gate permits the attempt and the upstream call
  succeeds, the slot of that category holds, right after the call, the value that the
  upstream call returned.
\<close>

theorem refresh_success_fills_slot:
  assumes "\<not> tooSoon cs w"
  shows "(snd (fst (apGetDomainName (ap cs) (remote w))) = None \<longrightarrow>
            domainName (fst (snd (GetDomainName (cs, w)))) =
              fst (fst (apGetDomainName (ap cs) (remote w)))) \<and>
         (snd (fst (apGetNamespaces (ap cs) (remote w))) = None \<longrightarrow>
            namespaces (fst (snd (GetNamespaces (cs, w)))) =
              fst (fst (apGetNamespaces (ap cs) (remote w)))) \<and>
         (snd (fst (apGetNodes (ap cs) ns (remote w))) = None \<longrightarrow>
            nodes (fst (snd (GetNodes ns (cs, w)))) ns =
              Some (fst (fst (apGetNodes (ap cs) ns (remote w))))) \<and>
         (snd (fst (apGetProxies (ap cs) (remote w))) = None \<longrightarrow>
            proxies (fst (snd (GetProxies (cs, w)))) =
              fst (fst (apGetProxies (ap cs) (remote w)))) \<and>
         (snd (fst (apGetUsers (ap cs) (remote w))) = None \<longrightarrow>
            users (fst (snd (GetUsers (cs, w)))) =
              fst (fst (apGetUsers (ap cs) (remote w)))) \<and>
         (snd (fst (apGetCertAuthorities (ap cs) UserCA lk (remote w))) = None \<longrightarrow>
            userCAs (fst (snd (GetCertAuthorities UserCA lk (cs, w)))) =
              fst (fst (apGetCertAuthorities (ap cs) UserCA lk (remote w)))) \<and>
         (snd (fst (apGetCertAuthorities (ap cs) HostCA lk (remote w))) = None \<longrightarrow>
            hostCAs (fst (snd (GetCertAuthorities HostCA lk (cs, w)))) =
              fst (fst (apGetCertAuthorities (ap cs) HostCA lk (remote w))))"
  using assms by (simp add: read_eqs Let_def HostCA_def UserCA_def)

theorem refresh_success_fills_slot_witness:
  "\<not> tooSoon (staleClient 0) (worldAt (10 * Second) []) \<and>
   domainName (fst (snd (GetDomainName (staleClient 0, worldAt (10 * Second) [])))) = ''example.com'' \<and>
   namespaces (fst (snd (GetNamespaces (staleClient 0, worldAt (10 * Second) [])))) =
     [\<lparr>Metadata_Name = ''default''\<rparr>] \<and>
   nodes (fst (snd (GetNodes ''default'' (staleClient 0, worldAt (10 * Second) [])))) ''default'' =
     Some [''node1.default'', ''node2.default''] \<and>
   proxies (fst (snd (GetProxies (staleClient 0, worldAt (10 * Second) [])))) = [''proxy1''] \<and>
   users (fst (snd (GetUsers (staleClient 0, worldAt (10 * Second) [])))) = [''alice'', ''bob''] \<and>
   userCAs (fst (snd (GetCertAuthorities UserCA False (staleClient 0, worldAt (10 * Second) [])))) =
     [''user-ca''] \<and>
   hostCAs (fst (snd (GetCertAuthorities HostCA False (staleClient 0, worldAt (10 * Second) [])))) =
     [''host-ca'']"
  using refresh_success_fills_slot [of "staleClient 0" "worldAt (10 * Second) []" "''default''" False]
  by (simp add: demo_simps UserCA_def HostCA_def)

text \<open>
  C7. \<open>GetCertAuthorities\<close> with kind \<open>UserCA\<close> never changes the host slot and returns
  the user slot; with kind \<open>HostCA\<close> it never changes the user slot and returns the host
  slot.
\<close>

theorem cert_authority_slots_separate:
  "hostCAs (fst (snd (GetCertAuthorities UserCA lk (cs, w)))) = hostCAs cs \<and>
   fst (fst (GetCertAuthorities UserCA lk (cs, w))) =
     userCAs (fst (snd (GetCertAuthorities UserCA lk (cs, w)))) \<and>
   userCAs (fst (snd (GetCertAuthorities HostCA lk (cs, w)))) = userCAs cs \<and>
   fst (fst (GetCertAuthorities HostCA lk (cs, w))) =
     hostCAs (fst (snd (GetCertAuthorities HostCA lk (cs, w))))"
  by (simp add: GetCertAuthorities_eq Let_def HostCA_def UserCA_def)

text \<open>
  C10. For every kind other than \<open>UserCA\<close>, not only \<open>HostCA\<close>, \<open>GetCertAuthorities\<close>
  returns the host slot, leaves the user slot alone, and overwrites the host slot with
  the upstream's value exactly when the attempt is made and succeeds.
\<close>

theorem other_kinds_use_host_slot:
  assumes "ct \<noteq> UserCA"
  shows "fst (fst (GetCertAuthorities ct lk (cs, w))) =
           hostCAs (fst (snd (GetCertAuthorities ct lk (cs, w)))) \<and>
         userCAs (fst (snd (GetCertAuthorities ct lk (cs, w)))) = userCAs cs \<and>
         hostCAs (fst (snd (GetCertAuthorities ct lk (cs, w)))) =
           (if \<not> tooSoon cs w \<and> snd (fst (apGetCertAuthorities (ap cs) ct lk (remote w))) = None
            then fst (fst (apGetCertAuthorities (ap cs) ct lk (remote w)))
            else hostCAs cs)"
  using assms by (simp add: GetCertAuthorities_eq Let_def)

theorem other_kinds_use_host_slot_witness:
  "CertAuthType ''other'' \<noteq> UserCA \<and>
   fst (GetCertAuthorities (CertAuthType ''other'') False (staleClient 0, worldAt (10 * Second) [])) =
     ([''other-ca''], None) \<and>
   hostCAs (fst (snd (GetCertAuthorities (CertAuthType ''other'') False
                        (staleClient 0, worldAt (10 * Second) [])))) = [''other-ca''] \<and>
   userCAs (fst (snd (GetCertAuthorities (CertAuthType ''other'') False
                        (staleClient 0, worldAt (10 * Second) [])))) = [''old-user-ca'']"
  using other_kinds_use_host_slot [of "CertAuthType ''other''" False "staleClient 0"
          "worldAt (10 * Second) []"]
  by (simp add: demo_simps UserCA_def GetCertAuthorities_eq Let_def)

section \<open>The backoff gate\<close>

text \<open>
  C3. If the most recent upstream failure was recorded at time \<open>T\<close>, a read at a time
  strictly between \<open>T\<close> and \<open>T\<close> + 10 seconds makes no upstream call: the whole state,
  the upstream's state and the call log included, is as before. A read at or after
  \<open>T\<close> + 10 seconds invokes the upstream operation: the log grows by exactly that call.
  This holds of each of the six read methods.
\<close>

theorem backoff_window:
  assumes "lastErrorTime cs = T"
  shows "(T < clock w \<and> clock w < T + 10 * Second \<longrightarrow>
            snd (GetDomainName (cs, w)) = (cs, w) \<and>
            snd (GetNamespaces (cs, w)) = (cs, w) \<and>
            snd (GetNodes ns (cs, w)) = (cs, w) \<and>
            snd (GetProxies (cs, w)) = (cs, w) \<and>
            snd (GetUsers (cs, w)) = (cs, w) \<and>
            snd (GetCertAuthorities ct lk (cs, w)) = (cs, w)) \<and>
         (T + 10 * Second \<le> clock w \<longrightarrow>
            apLog (snd (snd (GetDomainName (cs, w)))) =
              apLog w @ [(CallGetDomainName, snd (fst (apGetDomainName (ap cs) (remote w))))] \<and>
            apLog (snd (snd (GetNamespaces (cs, w)))) =
              apLog w @ [(CallGetNamespaces, snd (fst (apGetNamespaces (ap cs) (remote w))))] \<and>
            apLog (snd (snd (GetNodes ns (cs, w)))) =
              apLog w @ [(CallGetNodes ns, snd (fst (apGetNodes (ap cs) ns (remote w))))] \<and>
            apLog (snd (snd (GetProxies (cs, w)))) =
              apLog w @ [(CallGetProxies, snd (fst (apGetProxies (ap cs) (remote w))))] \<and>
            apLog (snd (snd (GetUsers (cs, w)))) =
              apLog w @ [(CallGetUsers, snd (fst (apGetUsers (ap cs) (remote w))))] \<and>
            apLog (snd (snd (GetCertAuthorities ct lk (cs, w)))) =
              apLog w @ [(CallGetCertAuthorities ct lk,
                          snd (fst (apGetCertAuthorities (ap cs) ct lk (remote w))))])"
proof (intro conjI impI)
  assume "T < clock w \<and> clock w < T + 10 * Second"
  with assms have ts: "tooSoon cs w" by (simp add: tooSoon_iff)
  show "snd (GetDomainName (cs, w)) = (cs, w)" using ts by (simp add: GetDomainName_eq)
  show "snd (GetNamespaces (cs, w)) = (cs, w)" using ts by (simp add: GetNamespaces_eq)
  show "snd (GetNodes ns (cs, w)) = (cs, w)" using ts by (simp add: GetNodes_eq)
  show "snd (GetProxies (cs, w)) = (cs, w)" using ts by (simp add: GetProxies_eq)
  show "snd (GetUsers (cs, w)) = (cs, w)" using ts by (simp add: GetUsers_eq)
  show "snd (GetCertAuthorities ct lk (cs, w)) = (cs, w)"
    using ts by (simp add: GetCertAuthorities_eq)
next
  assume "T + 10 * Second \<le> clock w"
  with assms have ts: "\<not> tooSoon cs w" by (simp add: tooSoon_iff)
  show "apLog (snd (snd (GetDomainName (cs, w)))) =
      apLog w @ [(CallGetDomainName, snd (fst (apGetDomainName (ap cs) (remote w))))]"
    using ts by (simp add: GetDomainName_eq Let_def snd_invoke)
  show "apLog (snd (snd (GetNamespaces (cs, w)))) =
      apLog w @ [(CallGetNamespaces, snd (fst (apGetNamespaces (ap cs) (remote w))))]"
    using ts by (simp add: GetNamespaces_eq Let_def snd_invoke)
  show "apLog (snd (snd (GetNodes ns (cs, w)))) =
      apLog w @ [(CallGetNodes ns, snd (fst (apGetNodes (ap cs) ns (remote w))))]"
    using ts by (simp add: GetNodes_eq Let_def snd_invoke)
  show "apLog (snd (snd (GetProxies (cs, w)))) =
      apLog w @ [(CallGetProxies, snd (fst (apGetProxies (ap cs) (remote w))))]"
    using ts by (simp add: GetProxies_eq Let_def snd_invoke)
  show "apLog (snd (snd (GetUsers (cs, w)))) =
      apLog w @ [(CallGetUsers, snd (fst (apGetUsers (ap cs) (remote w))))]"
    using ts by (simp add: GetUsers_eq Let_def snd_invoke)
  show "apLog (snd (snd (GetCertAuthorities ct lk (cs, w)))) =
      apLog w @ [(CallGetCertAuthorities ct lk,
                  snd (fst (apGetCertAuthorities (ap cs) ct lk (remote w))))]"
    using ts by (simp add: GetCertAuthorities_eq Let_def snd_invoke)
qed

theorem backoff_window_witness:
  "lastErrorTime (staleClient (100 * Second)) = 100 * Second \<and>
   100 * Second < clock (worldAt (101 * Second) [True]) \<and>
   clock (worldAt (101 * Second) [True]) < 100 * Second + 10 * Second \<and>
   snd (GetUsers (staleClient (100 * Second), worldAt (101 * Second) [True])) =
     (staleClient (100 * Second), worldAt (101 * Second) [True]) \<and>
   100 * Second + 10 * Second \<le> clock (worldAt (110 * Second) [True]) \<and>
   apLog (snd (snd (GetUsers (staleClient (100 * Second), worldAt (110 * Second) [True])))) =
     [(CallGetUsers, None)]"
  using backoff_window [of "staleClient (100 * Second)" "100 * Second"
          "worldAt (101 * Second) [True]" "''default''" UserCA False]
        backoff_window [of "staleClient (100 * Second)" "100 * Second"
          "worldAt (110 * Second) [True]" "''default''" UserCA False]
  by (simp add: demo_simps)

text \<open>
  C4. For every call of \<open>try\<close> with an operation that does not itself write the failure
  timestamp, on a clock that does not run backwards: when the operation is invoked and
  returns an error, the failure timestamp is the current time when \<open>try\<close> returns;
  when the operation succeeds or the attempt is suppressed, the timestamp is as before.
  In each case it has not decreased.
\<close>

theorem try_failure_clock:
  assumes "f l (cs, w) = (err, l1, cs1, w1)"
      and "lastErrorTime cs1 = lastErrorTime cs"
      and "clock w \<le> clock w1"
      and "try' f l (cs, w) = (l', cs', w')"
  shows "lastErrorTime cs' =
           (if \<not> tooSoon cs w \<and> err \<noteq> None then clock w' else lastErrorTime cs)
         \<and> lastErrorTime cs \<le> lastErrorTime cs'"
  using assms by (auto simp add: try'_def tooSoon_def backoffDuration_def Second_def split: if_splits)

theorem try_failure_clock_witness:
  "GetDomainName_func1 () (staleClient (100 * Second), worldAt (110 * Second) [False]) =
     (Some (Err ''offline''), (), staleClient (100 * Second),
      \<lparr>clock = 110 * Second + 1000000, remote = [],
        apLog = [(CallGetDomainName, Some (Err ''offline''))]\<rparr>) \<and>
   try' GetDomainName_func1 () (staleClient (100 * Second), worldAt (110 * Second) [False]) =
     ((), staleClient (110 * Second + 1000000),
      \<lparr>clock = 110 * Second + 1000000, remote = [],
        apLog = [(CallGetDomainName, Some (Err ''offline''))]\<rparr>) \<and>
   lastErrorTime (staleClient (110 * Second + 1000000)) = 110 * Second + 1000000 \<and>
   lastErrorTime (staleClient (100 * Second)) \<le> lastErrorTime (staleClient (110 * Second + 1000000))"
proof -
  let ?cs = "staleClient (100 * Second)"
  let ?w = "worldAt (110 * Second) [False]"
  let ?w1 = "\<lparr>clock = 110 * Second + 1000000, remote = ([]::bool list),
        apLog = [(CallGetDomainName, Some (Err ''offline''))]\<rparr>"
  have f: "GetDomainName_func1 () (?cs, ?w) = (Some (Err ''offline''), (), ?cs, ?w1)"
    by (simp add: GetDomainName_func1_def invoke_def demo_simps)
  have t: "try' GetDomainName_func1 () (?cs, ?w) = ((), staleClient (110 * Second + 1000000), ?w1)"
    by (simp add: try'_def GetDomainName_func1_def invoke_def demo_simps)
  have c: "clock ?w \<le> clock ?w1" by (simp add: demo_simps)
  show ?thesis
    using try_failure_clock [OF f refl c t] f t by (simp add: demo_simps)
qed

section \<open>Construction\<close>

text \<open>
  C2. After a construction without error every cache slot holds the value of the
  corresponding initial query. The namespace slot does not: the struct literal leaves
  \<open>namespaces\<close> out, so the slot is nil although the upstream listed a namespace (whose
  nodes were loaded).
\<close>

theorem NewCachingAuthClient_drops_namespaces:
  "fst (fst (apGetNamespaces demoAP [])) = [\<lparr>Metadata_Name = ''default''\<rparr>] \<and>
   fst (NewCachingAuthClient demoAP (worldAt 0 [])) =
     Inr \<lparr>ap = demoAP, lastErrorTime = 0, domainName = ''example.com'', namespaces = [],
          nodes = [''default'' \<mapsto> [''node1.default'', ''node2.default'']],
          proxies = [''proxy1''], users = [''alice'', ''bob''],
          userCAs = [''user-ca''], hostCAs = [''host-ca'']\<rparr>"
  by (simp add: NewCachingAuthClient_def invoke_def demoAP_def scripted_def worldAt_def
        UserCA_def HostCA_def)

text \<open>
  C6. If any one of the initial loads (domain name, namespaces, the nodes of a listed
  namespace, proxies, users, user CAs, host CAs) returns an error when the upstream is
  asked, then \<open>NewCachingAuthClient\<close> returns an error and no client, whatever the other
  loads return.
\<close>

theorem construction_fails_when_a_load_fails:
  assumes "Some e \<in> set (initialLoads a (remote w))"
  shows "\<exists>x. fst (NewCachingAuthClient a w) = Inl x"
proof (cases "fst (NewCachingAuthClient a w)")
  case (Inl x)
  then show ?thesis by blast
next
  case (Inr c)
  then have "NewCachingAuthClient a w = (Inr c, snd (NewCachingAuthClient a w))"
    by (simp add: prod_eq_iff)
  from NewCachingAuthClient_Inr_loads [OF this] assms show ?thesis by auto
qed

theorem construction_fails_when_a_load_fails_witness:
  "Some (Err ''offline'') \<in>
     set (initialLoads demoAP (remote (worldAt 0 [True, True, True, True, False]))) \<and>
   initialLoads demoAP (remote (worldAt 0 [True, True, True, True, False])) =
     [None, None, None, None, Some (Err ''offline''), None, None] \<and>
   fst (NewCachingAuthClient demoAP (worldAt 0 [True, True, True, True, False])) =
     Inl (TraceError (Err ''offline''))"
proof -
  let ?w = "worldAt 0 [True, True, True, True, False]"
  have l: "initialLoads demoAP (remote ?w) =
      [None, None, None, None, Some (Err ''offline''), None, None]"
    by (simp add: initialLoads_def demoAP_def scripted_def worldAt_def)
  then have m: "Some (Err ''offline'') \<in> set (initialLoads demoAP (remote ?w))"
    by simp
  have "fst (NewCachingAuthClient demoAP ?w) = Inl (TraceError (Err ''offline''))"
    using construction_fails_when_a_load_fails [OF m]
    by (simp add: NewCachingAuthClient_def invoke_def demoAP_def scripted_def worldAt_def
          Wrap_def)
  with l m show ?thesis by simp
qed

section \<open>Mutations\<close>

text \<open>
  C8. \<open>UpsertNode\<close> and \<open>UpsertProxy\<close> return exactly the error of the upstream call,
  leave the client (every cache slot and the failure timestamp) unchanged, and call the
  upstream whatever the failure timestamp says.
\<close>

theorem upsert_pass_through:
  "fst (UpsertNode srv ttl (cs, w)) = snd (fst (apUpsertNode (ap cs) srv ttl (remote w))) \<and>
   fst (snd (UpsertNode srv ttl (cs, w))) = cs \<and>
   apLog (snd (snd (UpsertNode srv ttl (cs, w)))) =
     apLog w @ [(CallUpsertNode, snd (fst (apUpsertNode (ap cs) srv ttl (remote w))))] \<and>
   fst (UpsertProxy srv ttl (cs, w)) = snd (fst (apUpsertProxy (ap cs) srv ttl (remote w))) \<and>
   fst (snd (UpsertProxy srv ttl (cs, w))) = cs \<and>
   apLog (snd (snd (UpsertProxy srv ttl (cs, w)))) =
     apLog w @ [(CallUpsertProxy, snd (fst (apUpsertProxy (ap cs) srv ttl (remote w))))]"
  by (simp add: UpsertNode_def UpsertProxy_def invoke_def split: prod.splits)

section \<open>Label grouping\<close>

text \<open>
  C9. For the three servers labelled os=gentoo, os=coreos and role=database, os=plan9
  and role=database, at the addresses 198.145.29.83, 11.1.1.1 and 8.8.4.4, each with or
  without a trailing port, and in whatever order the labels of a server are visited,
  \<open>bufferLabels\<close> yields exactly the groups os-gentoo, os-coreos, os-plan9 and
  role-database, the hosts of a group in input order and without the port.
\<close>

theorem label_grouping_fixture:
  assumes "mset l1 = {#(''os'', ''gentoo'')#}"
      and "mset l2 = {#(''os'', ''coreos''), (''role'', ''database'')#}"
      and "mset l3 = {#(''os'', ''plan9''), (''role'', ''database'')#}"
      and "p1 = [] \<or> hd p1 = CHR '':''"
      and "p2 = [] \<or> hd p2 = CHR '':''"
      and "p3 = [] \<or> hd p3 = CHR '':''"
  shows "bufferLabels
           [\<lparr>GetAddr = ''198.145.29.83'' @ p1, GetAllLabels = l1\<rparr>,
            \<lparr>GetAddr = ''11.1.1.1'' @ p2, GetAllLabels = l2\<rparr>,
            \<lparr>GetAddr = ''8.8.4.4'' @ p3, GetAllLabels = l3\<rparr>] =
         [''os-gentoo'' \<mapsto> [''198.145.29.83''],
          ''os-coreos'' \<mapsto> [''11.1.1.1''],
          ''os-plan9'' \<mapsto> [''8.8.4.4''],
          ''role-database'' \<mapsto> [''11.1.1.1'', ''8.8.4.4'']]"
proof -
  have m1: "mset l1 = mset [(''os'', ''gentoo'')]"
    and m2: "mset l2 = mset [(''os'', ''coreos''), (''role'', ''database'')]"
    and m3: "mset l3 = mset [(''os'', ''plan9''), (''role'', ''database'')]"
    using assms(1-3) by simp_all
  have t1: "trimTrailingPort (''198.145.29.83'' @ p1) = ''198.145.29.83''"
    by (rule trim_suffix [OF _ assms(4)]) simp
  have t2: "trimTrailingPort (''11.1.1.1'' @ p2) = ''11.1.1.1''"
    by (rule trim_suffix [OF _ assms(5)]) simp
  have t3: "trimTrailingPort (''8.8.4.4'' @ p3) = ''8.8.4.4''"
    by (rule trim_suffix [OF _ assms(6)]) simp
  show ?thesis
    unfolding bufferLabels_def bufferLabels_nodes.simps Server.simps
      bufferLabels_labels_order [OF m1] bufferLabels_labels_order [OF m2]
      bufferLabels_labels_order [OF m3]
    by (rule ext) (simp add: append_host_def t1 t2 t3 del: append.simps)
qed

theorem label_grouping_fixture_witness:
  "bufferLabels
     [\<lparr>GetAddr = ''198.145.29.83'', GetAllLabels = [(''os'', ''gentoo'')]\<rparr>,
      \<lparr>GetAddr = ''11.1.1.1:3022'', GetAllLabels = [(''role'', ''database''), (''os'', ''coreos'')]\<rparr>,
      \<lparr>GetAddr = ''8.8.4.4'', GetAllLabels = [(''os'', ''plan9''), (''role'', ''database'')]\<rparr>] =
   [''os-gentoo'' \<mapsto> [''198.145.29.83''],
    ''os-coreos'' \<mapsto> [''11.1.1.1''],
    ''os-plan9'' \<mapsto> [''8.8.4.4''],
    ''role-database'' \<mapsto> [''11.1.1.1'', ''8.8.4.4'']]"
  using label_grouping_fixture [of "[(''os'', ''gentoo'')]"
          "[(''role'', ''database''), (''os'', ''coreos'')]"
          "[(''os'', ''plan9''), (''role'', ''database'')]" "[]" "'':3022''" "[]"]
  by simp

end
